theory Spec2Isabelle
  imports Main
begin

section \<open>The FLOPs estimator of the notebook\<close>

text \<open>
  The repository is one notebook (\<^verbatim>\<open>Flops Intro.ipynb\<close>) whose only function of its own
  is \<^verbatim>\<open>flops(model)\<close>:
  \<^verbatim>\<open>
  def flops(model):
      total_flops = 0

      for i, layer in enumerate(model.layers):
          if isinstance(layer, tf.keras.layers.Flatten):
              print(f'Layer {i}: Flatten - no FLOPs counted.')
              continue

          elif isinstance(layer, tf.keras.layers.Dense):
              print(f'Layer {i}: Dense')
              input_units = layer.input_shape[-1]
              output_units = layer.units
              flops = 2 * input_units * output_units  # Multiply-accumulate
              print(f'  input_units: {input_units}, output_units: {output_units}, flops: {flops}')

              # Activation function (approximate, optional)
              if layer.activation == tf.keras.activations.relu:
                  flops += output_units  # 1 op per unit
                  print(f'  +ReLU activation FLOPs: {output_units}')
              elif layer.activation == tf.keras.activations.softmax:
                  flops += 5 * output_units  # exp, sum, divide
                  print(f'  +Softmax activation FLOPs (approx): {5 * output_units}')

              total_flops += flops

      print(f"\nTotal estimated FLOPs: {total_flops:,}")
      return total_flops
  \<close>
  (The dash of the first message is an em dash in the source.)
  It reads three things of a layer: its class, \<^verbatim>\<open>input_shape[-1]\<close> and \<^verbatim>\<open>units\<close> of a
  Dense layer, and the activation of a Dense layer. It writes a local counter and the
  standard output. The embedding keeps exactly these.
\<close>

subsection \<open>Layers\<close>

text \<open>
  \<^verbatim>\<open>layer.activation\<close> is compared with \<^verbatim>\<open>relu\<close> and with \<^verbatim>\<open>softmax\<close>; every other
  activation (Keras stores \<^verbatim>\<open>linear\<close> for \<^verbatim>\<open>activation=None\<close>) falls through both tests.
\<close>

datatype activation = NoActivation | ReLU | Softmax | Other string

text \<open>
  A layer is a Flatten layer, a Dense layer or a layer of another class, named by its
  kind. Sizes are Python integers, hence \<^typ>\<open>int\<close>: the function tests no sign.
  \<^verbatim>\<open>layer.input_shape[-1]\<close> is absent for a layer that was never built (the attribute
  access raises) or whose last dimension is \<^verbatim>\<open>None\<close> (the product raises), hence
  \<^typ>\<open>int option\<close>. A Flatten layer carries its input shape, which the function
  never reads.
\<close>

datatype layer =
    Flatten "int list"
  | Dense "int option" int activation
  | Unsupported string

subsection \<open>Output and state\<close>

text \<open>
  One constructor for each \<^verbatim>\<open>print\<close> call of the function, holding the values the
  format string interpolates, in the order of the source.
\<close>

datatype line =
    FlattenLine nat
  | DenseLine nat
  | UnitsLine int int int
  | ReluLine int
  | SoftmaxLine int
  | TotalLine int

text \<open>
  The exception that ends a call: the input size of a Dense layer cannot be read or
  multiplied.
\<close>

datatype error = MissingInputShape

text \<open>The local counter and the standard output, which only grows.\<close>

record state =
  total_flops :: int
  stdout :: "line list"

definition print_line :: "line \<Rightarrow> state \<Rightarrow> state" where
  "print_line ln s = s\<lparr>stdout := stdout s @ [ln]\<rparr>"

subsection \<open>The function\<close>

text \<open>
  One iteration of the \<^verbatim>\<open>for\<close> loop, for the layer at index \<open>i\<close>. The result is the
  exception raised, if any, and the state reached: what was printed before an
  exception stays printed.
\<close>

fun body :: "nat \<Rightarrow> layer \<Rightarrow> state \<Rightarrow> error option \<times> state" where
  "body i (Flatten shp) s = (None, print_line (FlattenLine i) s)"
| "body i (Dense input_shape output_units act) s =
     (let s1 = print_line (DenseLine i) s in
      case input_shape of
        None \<Rightarrow> (Some MissingInputShape, s1)
      | Some input_units \<Rightarrow>
         (let flops = 2 * input_units * output_units;
              s2 = print_line (UnitsLine input_units output_units flops) s1;
              (flops, s3) =
                (if act = ReLU then
                   (flops + output_units, print_line (ReluLine output_units) s2)
                 else if act = Softmax then
                   (flops + 5 * output_units, print_line (SoftmaxLine (5 * output_units)) s2)
                 else (flops, s2))
          in (None, s3\<lparr>total_flops := total_flops s3 + flops\<rparr>)))"
| "body i (Unsupported k) s = (None, s)"

text \<open>The loop over \<^verbatim>\<open>enumerate(model.layers)\<close>, from index \<open>i\<close>.\<close>

fun loop :: "nat \<Rightarrow> layer list \<Rightarrow> state \<Rightarrow> error option \<times> state" where
  "loop i [] s = (None, s)"
| "loop i (l # ls) s =
     (case body i l s of
        (Some e, s') \<Rightarrow> (Some e, s')
      | (None, s') \<Rightarrow> loop (Suc i) ls s')"

text \<open>
  The call \<^verbatim>\<open>flops(model)\<close> on the layers of the model, with \<open>out\<close> what the standard
  output holds before the call: the exception or the returned total, and the standard
  output after the call.
\<close>

definition flops :: "layer list \<Rightarrow> line list \<Rightarrow> (error + int) \<times> line list" where
  "flops layers out =
     (case loop 0 layers \<lparr>total_flops = 0, stdout = out\<rparr> of
        (Some e, s) \<Rightarrow> (Inl e, stdout s)
      | (None, s) \<Rightarrow> (Inr (total_flops s), stdout s @ [TotalLine (total_flops s)]))"

subsection \<open>Reading a run\<close>

text \<open>
  What one layer does to the counter and to the output, read off one iteration that
  starts from a counter at 0 and an empty output: the exception it raises, the amount
  it adds to \<open>total_flops\<close> (its cost), and the lines it prints.
\<close>

definition init :: state where
  "init = \<lparr>total_flops = 0, stdout = []\<rparr>"

definition layer_error :: "layer \<Rightarrow> error option" where
  "layer_error l = fst (body 0 l init)"

definition layer_cost :: "layer \<Rightarrow> int" where
  "layer_cost l = total_flops (snd (body 0 l init))"

definition layer_lines :: "nat \<Rightarrow> layer \<Rightarrow> line list" where
  "layer_lines i l = stdout (snd (body i l init))"

text \<open>The same for the whole loop, started at index \<open>i\<close>.\<close>

definition loop_error :: "layer list \<Rightarrow> error option" where
  "loop_error ls = fst (loop 0 ls init)"

definition loop_cost :: "layer list \<Rightarrow> int" where
  "loop_cost ls = total_flops (snd (loop 0 ls init))"

definition loop_lines :: "nat \<Rightarrow> layer list \<Rightarrow> line list" where
  "loop_lines i ls = stdout (snd (loop i ls init))"

text \<open>
  The operation count a printed line reports: the \<open>flops\<close> field of the line of a Dense
  layer's units, and the amount of an activation line.
\<close>

fun amount :: "line \<Rightarrow> int" where
  "amount (UnitsLine input_units output_units n) = n"
| "amount (ReluLine n) = n"
| "amount (SoftmaxLine n) = n"
| "amount (FlattenLine i) = 0"
| "amount (DenseLine i) = 0"
| "amount (TotalLine n) = 0"

text \<open>
  The per-layer entries of a trace are its header lines, \<^verbatim>\<open>Layer {i}: Flatten ...\<close> and
  \<^verbatim>\<open>Layer {i}: Dense\<close>: each names an index and a kind of layer.
\<close>

fun header :: "line \<Rightarrow> (nat \<times> string) option" where
  "header (FlattenLine i) = Some (i, ''Flatten'')"
| "header (DenseLine i) = Some (i, ''Dense'')"
| "header (UnitsLine input_units output_units n) = None"
| "header (ReluLine n) = None"
| "header (SoftmaxLine n) = None"
| "header (TotalLine n) = None"

definition entries :: "line list \<Rightarrow> (nat \<times> string) list" where
  "entries out = List.map_filter header out"

text \<open>The kind of a layer, and whether one of the two \<^verbatim>\<open>isinstance\<close> tests accepts it.\<close>

fun kind :: "layer \<Rightarrow> string" where
  "kind (Flatten shp) = ''Flatten''"
| "kind (Dense input_shape output_units act) = ''Dense''"
| "kind (Unsupported k) = k"

fun supported :: "layer \<Rightarrow> bool" where
  "supported (Flatten shp) = True"
| "supported (Dense input_shape output_units act) = True"
| "supported (Unsupported k) = False"

text \<open>
  The sizes of a layer are not negative: Keras gives no layer a negative dimension or
  a negative number of units. This holds of every layer that is not a Dense layer with
  known sizes.
\<close>

fun sizes_nonneg :: "layer \<Rightarrow> bool" where
  "sizes_nonneg (Dense (Some input_units) output_units act) = (0 \<le> input_units \<and> 0 \<le> output_units)"
| "sizes_nonneg (Dense None output_units act) = True"
| "sizes_nonneg (Flatten shp) = True"
| "sizes_nonneg (Unsupported k) = True"

text \<open>
  The model of the notebook's first run:
  \<^verbatim>\<open>Sequential([Flatten(input_shape=(28, 28)), Dense(100, activation='relu'),
  Dense(100, activation='relu'), Dense(10, activation='softmax')])\<close>.
\<close>

definition scenario_A :: "layer list" where
  "scenario_A =
     [Flatten [28, 28], Dense (Some 784) 100 ReLU, Dense (Some 100) 100 ReLU,
      Dense (Some 100) 10 Softmax]"

section \<open>The loop, layer by layer\<close>

lemma body_frame:
  "body i l s =
     (layer_error l,
      \<lparr>total_flops = total_flops s + layer_cost l, stdout = stdout s @ layer_lines i l\<rparr>)"
  by (cases l)
     (auto simp: layer_error_def layer_cost_def layer_lines_def init_def print_line_def
           Let_def split: option.splits)

lemma loop_frame:
  "loop i ls s =
     (fst (loop i ls init),
      \<lparr>total_flops = total_flops s + total_flops (snd (loop i ls init)),
       stdout = stdout s @ stdout (snd (loop i ls init))\<rparr>)"
proof (induction ls arbitrary: i s)
  case Nil
  show ?case by (simp add: init_def)
next
  case (Cons l ls)
  define c where "c = layer_cost l"
  define w where "w = layer_lines i l"
  define s1 where "s1 = \<lparr>total_flops = total_flops s + c, stdout = stdout s @ w\<rparr>"
  define t1 where "t1 = \<lparr>total_flops = c, stdout = w\<rparr>"
  have bs: "body i l s = (layer_error l, s1)"
    by (simp add: body_frame [of i l s] s1_def c_def w_def)
  have bt: "body i l init = (layer_error l, t1)"
    using body_frame [of i l init] by (simp add: t1_def c_def w_def init_def)
  show ?case
  proof (cases "layer_error l")
    case (Some e)
    show ?thesis
      by (simp add: bs bt Some s1_def t1_def)
  next
    case None
    have ls: "loop i (l # ls) s = loop (Suc i) ls s1"
      by (simp add: bs None)
    have lt: "loop i (l # ls) init = loop (Suc i) ls t1"
      by (simp add: bt None)
    have f1: "loop (Suc i) ls s1 =
        (fst (loop (Suc i) ls init),
         \<lparr>total_flops = total_flops s1 + total_flops (snd (loop (Suc i) ls init)),
          stdout = stdout s1 @ stdout (snd (loop (Suc i) ls init))\<rparr>)"
      by (rule Cons.IH)
    have f2: "loop (Suc i) ls t1 =
        (fst (loop (Suc i) ls init),
         \<lparr>total_flops = total_flops t1 + total_flops (snd (loop (Suc i) ls init)),
          stdout = stdout t1 @ stdout (snd (loop (Suc i) ls init))\<rparr>)"
      by (rule Cons.IH)
    show ?thesis
      unfolding ls lt
      by (subst f1, subst f2, subst f2, subst f2) (simp add: s1_def t1_def)
  qed
qed

lemma loop_index:
  "fst (loop i ls s) = fst (loop j ls t) \<and>
   total_flops (snd (loop i ls s)) - total_flops s =
   total_flops (snd (loop j ls t)) - total_flops t"
proof (induction ls arbitrary: i j s t)
  case Nil
  show ?case by simp
next
  case (Cons l ls)
  show ?case
  proof (cases "layer_error l")
    case (Some e)
    then show ?thesis
      by (simp add: body_frame [of _ l])
  next
    case None
    define s1 where "s1 = \<lparr>total_flops = total_flops s + layer_cost l, stdout = stdout s @ layer_lines i l\<rparr>"
    define t1 where "t1 = \<lparr>total_flops = total_flops t + layer_cost l, stdout = stdout t @ layer_lines j l\<rparr>"
    have a: "loop i (l # ls) s = loop (Suc i) ls s1"
      by (simp add: body_frame [of i l s] None s1_def)
    have b: "loop j (l # ls) t = loop (Suc j) ls t1"
      by (simp add: body_frame [of j l t] None t1_def)
    have c: "total_flops s1 = total_flops s + layer_cost l" "total_flops t1 = total_flops t + layer_cost l"
      by (simp_all add: s1_def t1_def)
    show ?thesis
      unfolding a b using Cons.IH [of "Suc i" s1 "Suc j" t1] c by simp
  qed
qed

lemma loop_append:
  "loop i (xs @ ys) s =
     (case loop i xs s of
        (Some e, s') \<Rightarrow> (Some e, s')
      | (None, s') \<Rightarrow> loop (i + length xs) ys s')"
proof (induction xs arbitrary: i s)
  case Nil
  show ?case by simp
next
  case (Cons x xs)
  show ?case
    by (simp add: Cons.IH split: prod.splits option.splits)
qed


lemma loop_eq:
  "loop i ls s =
     (loop_error ls,
      \<lparr>total_flops = total_flops s + loop_cost ls, stdout = stdout s @ loop_lines i ls\<rparr>)"
proof -
  have "fst (loop i ls init) = loop_error ls"
    using loop_index [of i ls init 0 init] by (simp add: loop_error_def)
  moreover have "total_flops (snd (loop i ls init)) = loop_cost ls"
    using loop_index [of i ls init 0 init] by (simp add: loop_cost_def)
  ultimately show ?thesis
    using loop_frame [of i ls s] by (simp add: loop_lines_def)
qed

lemma flops_eq:
  "flops ls out =
     (case loop_error ls of
        Some e \<Rightarrow> (Inl e, out @ loop_lines 0 ls)
      | None \<Rightarrow> (Inr (loop_cost ls), out @ loop_lines 0 ls @ [TotalLine (loop_cost ls)]))"
  by (simp add: flops_def loop_eq [of 0 ls "\<lparr>total_flops = 0, stdout = out\<rparr>"]
      split: option.splits)

lemma layer_simps:
  "layer_error (Flatten shp) = None"
  "layer_error (Unsupported k) = None"
  "layer_error (Dense (Some a) b act) = None"
  "layer_error (Dense None b act) = Some MissingInputShape"
  "layer_cost (Flatten shp) = 0"
  "layer_cost (Unsupported k) = 0"
  "layer_cost (Dense None b act) = 0"
  "layer_cost (Dense (Some a) b act) =
     2 * a * b + (if act = ReLU then b else if act = Softmax then 5 * b else 0)"
  "layer_lines i (Flatten shp) = [FlattenLine i]"
  "layer_lines i (Unsupported k) = []"
  "layer_lines i (Dense None b act) = [DenseLine i]"
  "layer_lines i (Dense (Some a) b act) =
     DenseLine i # UnitsLine a b (2 * a * b) #
     (if act = ReLU then [ReluLine b] else if act = Softmax then [SoftmaxLine (5 * b)] else [])"
  by (simp_all add: layer_error_def layer_cost_def layer_lines_def init_def print_line_def Let_def)

lemma loop_Nil_simps:
  "loop_error [] = None" "loop_cost [] = 0" "loop_lines i [] = []"
  by (simp_all add: loop_error_def loop_cost_def loop_lines_def init_def)

lemma loop_Cons_simps:
  "loop_error (l # ls) = (case layer_error l of Some e \<Rightarrow> Some e | None \<Rightarrow> loop_error ls)"
  "loop_cost (l # ls) = layer_cost l + (case layer_error l of Some e \<Rightarrow> 0 | None \<Rightarrow> loop_cost ls)"
  "loop_lines i (l # ls) =
     layer_lines i l @ (case layer_error l of Some e \<Rightarrow> [] | None \<Rightarrow> loop_lines (Suc i) ls)"
proof -
  have b: "body j l init = (layer_error l, \<lparr>total_flops = layer_cost l, stdout = layer_lines j l\<rparr>)" for j
    using body_frame [of j l init] by (simp add: init_def)
  show "loop_error (l # ls) = (case layer_error l of Some e \<Rightarrow> Some e | None \<Rightarrow> loop_error ls)"
    by (simp add: loop_error_def b loop_eq [of "Suc 0" ls] split: option.splits)
  show "loop_cost (l # ls) = layer_cost l + (case layer_error l of Some e \<Rightarrow> 0 | None \<Rightarrow> loop_cost ls)"
    by (simp add: loop_cost_def b loop_eq [of "Suc 0" ls] split: option.splits)
  show "loop_lines i (l # ls) =
     layer_lines i l @ (case layer_error l of Some e \<Rightarrow> [] | None \<Rightarrow> loop_lines (Suc i) ls)"
  proof (cases "layer_error l")
    case (Some e)
    then show ?thesis by (simp add: loop_lines_def b)
  next
    case None
    have "loop i (l # ls) init =
        loop (Suc i) ls \<lparr>total_flops = layer_cost l, stdout = layer_lines i l\<rparr>"
      by (simp add: b None)
    then have "loop_lines i (l # ls) = layer_lines i l @ loop_lines (Suc i) ls"
      unfolding loop_lines_def [of i]
      by (simp add: loop_eq [of "Suc i" ls "\<lparr>total_flops = layer_cost l, stdout = layer_lines i l\<rparr>"])
    then show ?thesis by (simp add: None)
  qed
qed

lemma loop_append_simps:
  "loop_error (xs @ ys) = (case loop_error xs of Some e \<Rightarrow> Some e | None \<Rightarrow> loop_error ys)"
  "loop_cost (xs @ ys) = loop_cost xs + (case loop_error xs of Some e \<Rightarrow> 0 | None \<Rightarrow> loop_cost ys)"
  "loop_lines i (xs @ ys) =
     loop_lines i xs @ (case loop_error xs of Some e \<Rightarrow> [] | None \<Rightarrow> loop_lines (i + length xs) ys)"
  by (induction xs arbitrary: i)
     (simp_all add: loop_Nil_simps loop_Cons_simps split: option.splits)

lemma loop_cost_sum:
  "loop_error ls = None \<Longrightarrow> loop_cost ls = sum_list (map layer_cost ls)"
  by (induction ls) (simp_all add: loop_Nil_simps loop_Cons_simps split: option.splits)

lemma amount_layer_lines: "sum_list (map amount (layer_lines i l)) = layer_cost l"
proof (cases l)
  case (Dense inp b act)
  then show ?thesis by (cases inp) (simp_all add: layer_simps)
qed (simp_all add: layer_simps)

lemma amount_loop_lines: "sum_list (map amount (loop_lines i ls)) = loop_cost ls"
  by (induction ls arbitrary: i)
     (simp_all add: loop_Nil_simps loop_Cons_simps amount_layer_lines split: option.splits)

lemma flops_returns: "fst (flops ls out) = Inr t \<longleftrightarrow> loop_error ls = None \<and> t = loop_cost ls"
  by (auto simp: flops_eq split: option.splits)

lemma entries_Nil: "entries [] = []"
  by (simp add: entries_def List.map_filter_def)

lemma entries_append: "entries (xs @ ys) = entries xs @ entries ys"
  by (simp add: entries_def List.map_filter_def)

lemma entries_layer_lines:
  "entries (layer_lines i l) = (if supported l then [(i, kind l)] else [])"
proof (cases l)
  case (Dense inp b act)
  then show ?thesis by (cases inp) (simp_all add: layer_simps entries_def List.map_filter_def)
qed (simp_all add: layer_simps entries_def List.map_filter_def)

lemma entries_loop_lines:
  "loop_error ls = None \<Longrightarrow>
   entries (loop_lines j ls) =
     map (\<lambda>(i, l). (i, kind l)) (filter (\<lambda>(i, l). supported l) (enumerate j ls))"
  by (induction ls arbitrary: j)
     (simp_all add: loop_Nil_simps loop_Cons_simps entries_append entries_layer_lines
        entries_Nil split: option.splits)

lemma loop_cost_nonneg:
  "\<forall>l\<in>set ls. sizes_nonneg l \<Longrightarrow> 0 \<le> loop_cost ls"
proof (induction ls)
  case Nil
  show ?case by (simp add: loop_Nil_simps)
next
  case (Cons l ls)
  have "0 \<le> layer_cost l"
  proof (cases l)
    case (Dense inp b act)
    with Cons.prems show ?thesis
      by (cases inp) (simp_all add: layer_simps)
  qed (simp_all add: layer_simps)
  with Cons show ?case
    by (simp add: loop_Cons_simps split: option.splits)
qed

lemma flops_skip:
  assumes "layer_error l = None" and "layer_cost l = 0"
  shows "fst (flops (xs @ l # ys) out) = fst (flops (xs @ ys) out)"
  using assms
  by (simp add: flops_eq loop_append_simps loop_Cons_simps split: option.splits)

lemma flops_lines_split:
  assumes "fst (flops (xs @ l # ys) out) = Inr t"
  shows "snd (flops (xs @ l # ys) out) =
           out @ loop_lines 0 xs @ layer_lines (length xs) l @
           loop_lines (Suc (length xs)) ys @ [TotalLine t]"
proof -
  from assms have e: "loop_error (xs @ l # ys) = None" and t: "t = loop_cost (xs @ l # ys)"
    by (simp_all add: flops_returns)
  from e have ex: "loop_error xs = None" and el: "layer_error l = None"
    and ey: "loop_error ys = None"
    by (simp_all add: loop_append_simps loop_Cons_simps split: option.splits)
  show ?thesis
    unfolding t by (simp add: flops_eq loop_append_simps loop_Cons_simps ex el ey)
qed

section \<open>The claims\<close>

subsection \<open>The cost of a Dense layer\<close>

text \<open>
  Claim C1. For every Dense layer with input size \<open>a\<close> and output size \<open>b\<close>, the
  per-layer cost is \<open>2 * a * b\<close> plus an activation term: 0 for no activation, \<open>b\<close> for
  ReLU, \<open>5 * b\<close> for Softmax and 0 for any other activation. One iteration of the loop
  raises no exception on such a layer and adds exactly this amount to \<open>total_flops\<close>,
  whatever the index and the state; the call on the model of this one layer returns it.
\<close>

theorem dense_cost:
  "fst (body i (Dense (Some a) b act) s) = None \<and>
   total_flops (snd (body i (Dense (Some a) b act) s)) =
     total_flops s +
     (2 * a * b + (case act of NoActivation \<Rightarrow> 0 | ReLU \<Rightarrow> b | Softmax \<Rightarrow> 5 * b | Other name \<Rightarrow> 0)) \<and>
   fst (flops [Dense (Some a) b act] out) =
     Inr (2 * a * b + (case act of NoActivation \<Rightarrow> 0 | ReLU \<Rightarrow> b | Softmax \<Rightarrow> 5 * b | Other name \<Rightarrow> 0))"
  by (cases act) (simp_all add: flops_def print_line_def Let_def)

subsection \<open>The total is the sum of the layers\<close>

text \<open>
  Claim C2. For every layer sequence on which the call returns, the returned total is
  the sum of the costs of the layers, and it is the sum of the amounts that the lines
  printed by this call report; the last line printed is the total itself.
\<close>

theorem total_is_sum:
  assumes "fst (flops ls out) = Inr t"
  shows "t = sum_list (map layer_cost ls) \<and>
         (\<exists>new. snd (flops ls out) = out @ new @ [TotalLine t] \<and> t = sum_list (map amount new))"
proof -
  from assms have e: "loop_error ls = None" and t: "t = loop_cost ls"
    by (simp_all add: flops_returns)
  have "snd (flops ls out) = out @ loop_lines 0 ls @ [TotalLine t] \<and>
        t = sum_list (map amount (loop_lines 0 ls))"
    by (simp add: flops_eq e t amount_loop_lines)
  then have "\<exists>new. snd (flops ls out) = out @ new @ [TotalLine t] \<and> t = sum_list (map amount new)"
    by (rule exI)
  then show ?thesis
    using loop_cost_sum [OF e] t by simp
qed

theorem total_is_sum_witness:
  "fst (flops [Flatten [2, 2], Dense (Some 4) 3 ReLU, Unsupported ''Conv2D''] []) = Inr 27 \<and>
   (27::int) = sum_list (map layer_cost [Flatten [2, 2], Dense (Some 4) 3 ReLU, Unsupported ''Conv2D'']) \<and>
   (\<exists>new. snd (flops [Flatten [2, 2], Dense (Some 4) 3 ReLU, Unsupported ''Conv2D''] []) =
       [] @ new @ [TotalLine 27] \<and> (27::int) = sum_list (map amount new))"
proof -
  have h: "fst (flops [Flatten [2, 2], Dense (Some 4) 3 ReLU, Unsupported ''Conv2D''] []) = Inr 27"
    by (simp add: flops_def print_line_def Let_def)
  from total_is_sum [OF h] h show ?thesis by blast
qed

subsection \<open>The notebook's first model\<close>

text \<open>
  Claim C3. On the sequence Flatten, Dense(784 to 100, ReLU), Dense(100 to 100, ReLU),
  Dense(100 to 10, Softmax) the per-layer costs are 0, 156900, 20100 and 2050 and the
  call returns 179050. The lines it prints are those the notebook records for this run.
\<close>

theorem scenario_A_costs:
  "map layer_cost scenario_A = [0, 156900, 20100, 2050] \<and>
   flops scenario_A [] =
     (Inr 179050,
      [FlattenLine 0,
       DenseLine 1, UnitsLine 784 100 156800, ReluLine 100,
       DenseLine 2, UnitsLine 100 100 20000, ReluLine 100,
       DenseLine 3, UnitsLine 100 10 2000, SoftmaxLine 50,
       TotalLine 179050])"
  by (simp add: scenario_A_def layer_simps flops_def print_line_def Let_def)

subsection \<open>The empty model\<close>

text \<open>
  Claim C8. On the empty layer sequence the call raises nothing and returns 0; it
  prints no line for any layer, only the line of the total.
\<close>

theorem empty_model:
  "flops [] out = (Inr 0, out @ [TotalLine 0]) \<and> entries (snd (flops [] [])) = []"
  by (simp add: flops_def entries_def List.map_filter_def)

subsection \<open>Flatten layers\<close>

text \<open>
  Claim C6. A Flatten layer costs 0 whatever its shape: with it or without it in the
  sequence the call ends the same way, with the same total. When the call returns, the
  trace holds the line \<^verbatim>\<open>Layer {i}: Flatten - no FLOPs counted.\<close> of this layer, with
  its index in the sequence, between the lines of the layers before it and those of
  the layers after it.
\<close>

theorem flatten_zero:
  "layer_cost (Flatten shp) = 0 \<and>
   fst (flops (xs @ Flatten shp # ys) out) = fst (flops (xs @ ys) out) \<and>
   (fst (flops (xs @ Flatten shp # ys) out) = Inr t \<longrightarrow>
      snd (flops (xs @ Flatten shp # ys) out) =
        out @ loop_lines 0 xs @ [FlattenLine (length xs)] @
        loop_lines (Suc (length xs)) ys @ [TotalLine t])"
  using flops_lines_split [of xs "Flatten shp" ys out t]
  by (simp add: flops_skip layer_simps)

theorem flatten_zero_witness:
  "layer_cost (Flatten [28, 28]) = 0 \<and>
   fst (flops ([Dense (Some 4) 3 ReLU] @ Flatten [28, 28] # [Dense (Some 3) 2 Softmax]) []) = Inr 49 \<and>
   fst (flops ([Dense (Some 4) 3 ReLU] @ [Dense (Some 3) 2 Softmax]) []) = Inr 49 \<and>
   snd (flops ([Dense (Some 4) 3 ReLU] @ Flatten [28, 28] # [Dense (Some 3) 2 Softmax]) []) =
     [] @ loop_lines 0 [Dense (Some 4) 3 ReLU] @ [FlattenLine (length [Dense (Some 4) 3 ReLU])] @
     loop_lines (Suc (length [Dense (Some 4) 3 ReLU])) [Dense (Some 3) 2 Softmax] @ [TotalLine 49]"
proof -
  have h: "fst (flops ([Dense (Some 4) 3 ReLU] @ Flatten [28, 28] # [Dense (Some 3) 2 Softmax]) []) = Inr 49"
    by (simp add: flops_def print_line_def Let_def)
  from flatten_zero [of "[28, 28]" "[Dense (Some 4) 3 ReLU]" "[Dense (Some 3) 2 Softmax]" "[]" 49] h
  show ?thesis by simp
qed

subsection \<open>Layers of another kind\<close>

text \<open>
  Claim C4 says that a layer that is neither Dense nor Flatten is flagged in the
  per-layer report. The loop has no branch for such a layer: on a Flatten layer, a
  Conv2D layer and a Dense layer it prints the lines of layers 0 and 2 and nothing that
  names layer 1.
\<close>

theorem unsupported_counterexample:
  "flops [Flatten [28, 28], Unsupported ''Conv2D'', Dense (Some 4) 3 ReLU] [] =
     (Inr 27, [FlattenLine 0, DenseLine 2, UnitsLine 4 3 24, ReluLine 3, TotalLine 27]) \<and>
   1 \<notin> fst ` set (entries (snd (flops [Flatten [28, 28], Unsupported ''Conv2D'', Dense (Some 4) 3 ReLU] [])))"
  by (simp add: flops_def print_line_def Let_def entries_def List.map_filter_def)

text \<open>
  Claim C4, amended. A layer that is neither Dense nor Flatten costs 0 and raises
  nothing: with it or without it the call ends the same way, with the same total, so
  the other layers are costed as without it. It prints no line: when the call returns,
  the trace is the lines of the layers before it followed at once by those of the
  layers after it, whose indices count it.
\<close>

theorem unsupported_skipped:
  "layer_cost (Unsupported k) = 0 \<and>
   fst (flops (xs @ Unsupported k # ys) out) = fst (flops (xs @ ys) out) \<and>
   (fst (flops (xs @ Unsupported k # ys) out) = Inr t \<longrightarrow>
      snd (flops (xs @ Unsupported k # ys) out) =
        out @ loop_lines 0 xs @ loop_lines (Suc (length xs)) ys @ [TotalLine t])"
  using flops_lines_split [of xs "Unsupported k" ys out t]
  by (simp add: flops_skip layer_simps)

theorem unsupported_skipped_witness:
  "layer_cost (Unsupported ''Conv2D'') = 0 \<and>
   fst (flops ([Flatten [28, 28]] @ Unsupported ''Conv2D'' # [Dense (Some 4) 3 ReLU]) []) = Inr 27 \<and>
   fst (flops ([Flatten [28, 28]] @ [Dense (Some 4) 3 ReLU]) []) = Inr 27 \<and>
   snd (flops ([Flatten [28, 28]] @ Unsupported ''Conv2D'' # [Dense (Some 4) 3 ReLU]) []) =
     [] @ loop_lines 0 [Flatten [28, 28]] @ loop_lines (Suc (length [Flatten [28, 28]])) [Dense (Some 4) 3 ReLU] @
     [TotalLine 27]"
proof -
  have h: "fst (flops ([Flatten [28, 28]] @ Unsupported ''Conv2D'' # [Dense (Some 4) 3 ReLU]) []) = Inr 27"
    by (simp add: flops_def print_line_def Let_def)
  from unsupported_skipped [of "''Conv2D''" "[Flatten [28, 28]]" "[Dense (Some 4) 3 ReLU]" "[]" 27] h
  show ?thesis by simp
qed

subsection \<open>Dense layers with a zero or missing size\<close>

text \<open>
  Claim C5 says that a Dense layer with a missing, zero or negative size is detected
  before the arithmetic and rejected with a marker, never costed 0 in silence. The
  function tests no size: a Dense layer of output size 0 prints the ordinary lines of a
  Dense layer, with nothing that marks it, and costs 0.
\<close>

theorem invalid_dense_counterexample:
  "flops [Dense (Some 784) 0 ReLU] [] =
     (Inr 0, [DenseLine 0, UnitsLine 784 0 0, ReluLine 0, TotalLine 0])"
  by (simp add: flops_def print_line_def Let_def)

text \<open>
  Claim C5, amended. The function validates no size. A Dense layer whose sizes \<open>a\<close> and
  \<open>b\<close> are not negative, zero included, is neither detected nor rejected: it is costed
  \<open>2 * a * b\<close> plus the activation term, which is never negative, and it prints the
  lines of any Dense layer, with no marker. So an output size of 0 gives the cost 0,
  and an input size of 0 leaves the activation term. A Dense layer whose input size is
  missing makes the whole call raise: no total is returned, and when the layers before
  it raise nothing the output ends with the header line of this layer. Negative sizes
  are left out of the statement.
\<close>

theorem dense_unchecked:
  "(0 \<le> a \<and> 0 \<le> b \<longrightarrow>
      flops [Dense (Some a) b act] out =
        (Inr (2 * a * b + (case act of ReLU \<Rightarrow> b | Softmax \<Rightarrow> 5 * b | _ \<Rightarrow> 0)),
         out @ [DenseLine 0, UnitsLine a b (2 * a * b)] @
         (case act of ReLU \<Rightarrow> [ReluLine b] | Softmax \<Rightarrow> [SoftmaxLine (5 * b)] | _ \<Rightarrow> []) @
         [TotalLine (2 * a * b + (case act of ReLU \<Rightarrow> b | Softmax \<Rightarrow> 5 * b | _ \<Rightarrow> 0))]) \<and>
      0 \<le> 2 * a * b + (case act of ReLU \<Rightarrow> b | Softmax \<Rightarrow> 5 * b | _ \<Rightarrow> 0)) \<and>
   (0 \<le> a \<longrightarrow>
      flops [Dense (Some a) 0 act] out =
        (Inr 0,
         out @ [DenseLine 0, UnitsLine a 0 0] @
         (case act of ReLU \<Rightarrow> [ReluLine 0] | Softmax \<Rightarrow> [SoftmaxLine 0] | _ \<Rightarrow> []) @
         [TotalLine 0])) \<and>
   (0 \<le> b \<longrightarrow>
      fst (flops [Dense (Some 0) b act] out) =
        Inr (case act of ReLU \<Rightarrow> b | Softmax \<Rightarrow> 5 * b | _ \<Rightarrow> 0)) \<and>
   fst (flops (xs @ Dense None b act # ys) out) \<noteq> Inr t \<and>
   (fst (flops xs out) = Inr tx \<longrightarrow>
      flops (xs @ Dense None b act # ys) out =
        (Inl MissingInputShape, out @ loop_lines 0 xs @ [DenseLine (length xs)]))"
proof -
  have f: "flops [Dense (Some a') b' act] out =
     (Inr (2 * a' * b' + (case act of ReLU \<Rightarrow> b' | Softmax \<Rightarrow> 5 * b' | _ \<Rightarrow> 0)),
      out @ [DenseLine 0, UnitsLine a' b' (2 * a' * b')] @
      (case act of ReLU \<Rightarrow> [ReluLine b'] | Softmax \<Rightarrow> [SoftmaxLine (5 * b')] | _ \<Rightarrow> []) @
      [TotalLine (2 * a' * b' + (case act of ReLU \<Rightarrow> b' | Softmax \<Rightarrow> 5 * b' | _ \<Rightarrow> 0))])"
    for a' b'
    by (cases act) (simp_all add: flops_def print_line_def Let_def)
  have n: "0 \<le> 2 * a * b + (case act of ReLU \<Rightarrow> b | Softmax \<Rightarrow> 5 * b | _ \<Rightarrow> 0)"
    if "0 \<le> a" "0 \<le> b"
    using that by (cases act) simp_all
  have z: "flops [Dense (Some a) 0 act] out =
        (Inr 0,
         out @ [DenseLine 0, UnitsLine a 0 0] @
         (case act of ReLU \<Rightarrow> [ReluLine 0] | Softmax \<Rightarrow> [SoftmaxLine 0] | _ \<Rightarrow> []) @
         [TotalLine 0])"
    by (cases act) (simp_all add: flops_def print_line_def Let_def)
  have i: "fst (flops [Dense (Some 0) b act] out) =
        Inr (case act of ReLU \<Rightarrow> b | Softmax \<Rightarrow> 5 * b | _ \<Rightarrow> 0)"
    by (simp add: f [of 0 b])
  have m: "fst (flops (xs @ Dense None b act # ys) out) \<noteq> Inr t"
    by (simp add: flops_returns loop_append_simps loop_Cons_simps layer_simps split: option.splits)
  have r: "flops (xs @ Dense None b act # ys) out =
        (Inl MissingInputShape, out @ loop_lines 0 xs @ [DenseLine (length xs)])"
    if "fst (flops xs out) = Inr tx"
  proof -
    from that have "loop_error xs = None" by (simp add: flops_returns)
    then show ?thesis
      by (simp add: flops_eq loop_append_simps loop_Cons_simps layer_simps)
  qed
  from f [of a b] n z i m r show ?thesis by blast
qed

theorem dense_unchecked_witness:
  "flops [Dense (Some 784) 0 Softmax] [] =
     (Inr 0, [DenseLine 0, UnitsLine 784 0 0, SoftmaxLine 0, TotalLine 0]) \<and>
   flops [Dense (Some 0) 3 ReLU] [] =
     (Inr 3, [DenseLine 0, UnitsLine 0 3 0, ReluLine 3, TotalLine 3]) \<and>
   fst (flops [Flatten [28, 28]] []) = Inr 0 \<and>
   flops ([Flatten [28, 28]] @ Dense None 10 ReLU # [Dense (Some 4) 3 ReLU]) [] =
     (Inl MissingInputShape, [FlattenLine 0, DenseLine 1])"
proof -
  have h: "fst (flops [Flatten [28, 28]] []) = Inr 0"
    by (simp add: flops_def print_line_def)
  have l: "loop_lines 0 [Flatten [28, 28]] = [FlattenLine 0]"
    by (simp add: loop_lines_def init_def print_line_def)
  have p: "(0::int) \<le> 784" "(0::int) \<le> 0" "(0::int) \<le> 3"
    by simp_all
  from dense_unchecked [where a = 784 and b = 0 and act = Softmax and out = "[]"]
    dense_unchecked [where a = 0 and b = 3 and act = ReLU and out = "[]"]
    dense_unchecked [where b = 10 and act = ReLU and out = "[]" and xs = "[Flatten [28, 28]]"
      and ys = "[Dense (Some 4) 3 ReLU]" and tx = 0] h l p
  show ?thesis by simp
qed

subsection \<open>The entries of the trace\<close>

text \<open>
  Claim C7 says that the report has one entry for each input layer, at the same index.
  A layer that is neither Dense nor Flatten has no entry: on a Conv2D layer followed
  by a Dense layer the trace has one entry, that of layer 1.
\<close>

theorem report_length_counterexample:
  "entries (snd (flops [Unsupported ''Conv2D'', Dense (Some 4) 3 ReLU] [])) = [(1, ''Dense'')] \<and>
   length (entries (snd (flops [Unsupported ''Conv2D'', Dense (Some 4) 3 ReLU] []))) \<noteq>
   length [Unsupported ''Conv2D'', Dense (Some 4) 3 ReLU]"
  by (simp add: flops_def print_line_def Let_def entries_def List.map_filter_def)

text \<open>
  Claim C7, amended. When the call returns, the entries of its trace are those of the
  Flatten and Dense layers of the sequence, in the order of the sequence, each with the
  index and the kind of its layer; a layer of another kind has none. So for a
  sequence of Flatten and Dense layers only, the trace has as many entries as the
  sequence has layers, and the entry at index \<open>i\<close> names index \<open>i\<close> and the kind of
  layer \<open>i\<close>.
\<close>

theorem report_entries:
  assumes "fst (flops ls []) = Inr t"
  shows "entries (snd (flops ls [])) =
           map (\<lambda>(i, l). (i, kind l)) (filter (\<lambda>(i, l). supported l) (enumerate 0 ls)) \<and>
         ((\<forall>l\<in>set ls. supported l) \<longrightarrow>
            length (entries (snd (flops ls []))) = length ls \<and>
            (\<forall>i<length ls. entries (snd (flops ls [])) ! i = (i, kind (ls ! i))))"
proof -
  from assms have e: "loop_error ls = None"
    by (simp add: flops_returns)
  have a: "entries (snd (flops ls [])) =
      map (\<lambda>(i, l). (i, kind l)) (filter (\<lambda>(i, l). supported l) (enumerate 0 ls))"
    by (simp add: flops_eq e entries_append entries_loop_lines [OF e])
       (simp add: entries_def List.map_filter_def)
  have b: "length (entries (snd (flops ls []))) = length ls \<and>
      (\<forall>i<length ls. entries (snd (flops ls [])) ! i = (i, kind (ls ! i)))"
    if "\<forall>l\<in>set ls. supported l"
  proof -
    from that have "\<forall>p\<in>set (enumerate 0 ls). (\<lambda>(i, l). supported l) p"
      by (auto simp: in_set_enumerate_eq)
    then have "filter (\<lambda>(i, l). supported l) (enumerate 0 ls) = enumerate 0 ls"
      by (simp only: filter_True)
    with a have "entries (snd (flops ls [])) = map (\<lambda>(i, l). (i, kind l)) (enumerate 0 ls)"
      by simp
    then show ?thesis
      by (simp add: nth_enumerate_eq)
  qed
  from a b show ?thesis by blast
qed

theorem report_entries_witness:
  "fst (flops [Flatten [28, 28], Dense (Some 4) 3 ReLU] []) = Inr 27 \<and>
   entries (snd (flops [Flatten [28, 28], Dense (Some 4) 3 ReLU] [])) = [(0, ''Flatten''), (1, ''Dense'')] \<and>
   length (entries (snd (flops [Flatten [28, 28], Dense (Some 4) 3 ReLU] []))) = 2 \<and>
   entries (snd (flops [Flatten [28, 28], Dense (Some 4) 3 ReLU] [])) ! 1 =
     (1, kind ([Flatten [28, 28], Dense (Some 4) 3 ReLU] ! 1))"
proof -
  have h: "fst (flops [Flatten [28, 28], Dense (Some 4) 3 ReLU] []) = Inr 27"
    by (simp add: flops_def print_line_def Let_def)
  have s: "\<forall>l\<in>set [Flatten [28, 28], Dense (Some 4) 3 ReLU]. supported l"
    by simp
  from report_entries [OF h] s
  have "entries (snd (flops [Flatten [28, 28], Dense (Some 4) 3 ReLU] [])) =
           map (\<lambda>(i, l). (i, kind l))
             (filter (\<lambda>(i, l). supported l) (enumerate 0 [Flatten [28, 28], Dense (Some 4) 3 ReLU]))"
    and "length (entries (snd (flops [Flatten [28, 28], Dense (Some 4) 3 ReLU] []))) =
           length [Flatten [28, 28], Dense (Some 4) 3 ReLU]"
    and "\<forall>i<length [Flatten [28, 28], Dense (Some 4) 3 ReLU].
           entries (snd (flops [Flatten [28, 28], Dense (Some 4) 3 ReLU] [])) ! i =
             (i, kind ([Flatten [28, 28], Dense (Some 4) 3 ReLU] ! i))"
    by blast+
  with h show ?thesis by simp
qed

subsection \<open>Concatenation\<close>

text \<open>
  Claim C10. The total is additive over concatenation: the call returns on
  \<open>xs @ ys\<close> exactly when it returns on \<open>xs\<close> and on \<open>ys\<close>, and then the total of
  \<open>xs @ ys\<close> is the sum of the two totals. Hence, the sizes of layers being never
  negative, the total is not negative, and appending a layer does not lower it.
\<close>

theorem total_additive:
  "(fst (flops (xs @ ys) out) = Inr t \<longleftrightarrow>
      (\<exists>tx ty. fst (flops xs out) = Inr tx \<and> fst (flops ys out) = Inr ty \<and> t = tx + ty)) \<and>
   ((\<forall>l\<in>set xs. sizes_nonneg l) \<and> fst (flops xs out) = Inr tx \<longrightarrow> 0 \<le> tx) \<and>
   (sizes_nonneg l \<and> fst (flops xs out) = Inr tx \<and> fst (flops (xs @ [l]) out) = Inr tz \<longrightarrow> tx \<le> tz)"
proof -
  have a: "fst (flops (xs @ ys) out) = Inr t \<longleftrightarrow>
      (\<exists>tx ty. fst (flops xs out) = Inr tx \<and> fst (flops ys out) = Inr ty \<and> t = tx + ty)"
    by (auto simp: flops_returns loop_append_simps split: option.splits)
  have b: "0 \<le> tx" if "\<forall>l\<in>set xs. sizes_nonneg l" "fst (flops xs out) = Inr tx"
    using that loop_cost_nonneg [of xs] by (simp add: flops_returns)
  have c: "tx \<le> tz"
    if "sizes_nonneg l" "fst (flops xs out) = Inr tx" "fst (flops (xs @ [l]) out) = Inr tz"
    using that loop_cost_nonneg [of "[l]"]
    by (simp add: flops_returns loop_append_simps split: option.splits)
  from a b c show ?thesis by blast
qed

theorem total_additive_witness:
  "fst (flops ([Flatten [28, 28], Dense (Some 4) 3 ReLU] @ [Dense (Some 3) 2 Softmax]) []) = Inr 49 \<and>
   fst (flops [Flatten [28, 28], Dense (Some 4) 3 ReLU] []) = Inr 27 \<and>
   fst (flops [Dense (Some 3) 2 Softmax] []) = Inr 22 \<and>
   (\<exists>tx ty. fst (flops [Flatten [28, 28], Dense (Some 4) 3 ReLU] []) = Inr tx \<and>
      fst (flops [Dense (Some 3) 2 Softmax] []) = Inr ty \<and> (49::int) = tx + ty) \<and>
   (0::int) \<le> 27 \<and> (27::int) \<le> 49"
proof -
  have h1: "fst (flops ([Flatten [28, 28], Dense (Some 4) 3 ReLU] @ [Dense (Some 3) 2 Softmax]) []) = Inr 49"
    by (simp add: flops_def print_line_def Let_def)
  have h2: "fst (flops [Flatten [28, 28], Dense (Some 4) 3 ReLU] []) = Inr 27"
    by (simp add: flops_def print_line_def Let_def)
  have h3: "fst (flops [Dense (Some 3) 2 Softmax] []) = Inr 22"
    by (simp add: flops_def print_line_def Let_def)
  have n: "\<forall>l\<in>set [Flatten [28, 28], Dense (Some 4) 3 ReLU]. sizes_nonneg l"
    "sizes_nonneg (Dense (Some 3) 2 Softmax)"
    by simp_all
  from total_additive [where xs = "[Flatten [28, 28], Dense (Some 4) 3 ReLU]"
      and ys = "[Dense (Some 3) 2 Softmax]" and out = "[]" and t = 49 and tx = 27
      and l = "Dense (Some 3) 2 Softmax" and tz = 49] h1 h2 h3 n
  show ?thesis by blast
qed

end
